theory Spec2Isabelle
  imports Main "HOL-Library.Word"
begin

section \<open>Platform types and constants\<close>

text \<open>
  The wrappers of \<^verbatim>\<open>wrappers.hpp\<close> sit on the Windows API. Handles are pointer-sized
  values, error codes are 32-bit values and bytes are 8-bit values. The three constants
  below come from the platform headers: \<^verbatim>\<open>INVALID_HANDLE_VALUE\<close> is
  \<^verbatim>\<open>(HANDLE)-1\<close>, \<^verbatim>\<open>GetCurrentProcess()\<close> returns the pseudo handle
  \<^verbatim>\<open>(HANDLE)-1\<close>, and \<^verbatim>\<open>ERROR_INVALID_HANDLE\<close> is 6. The type
  \<^verbatim>\<open>CHAR\<close> is called \<open>BYTE\<close> here.
\<close>

type_synonym HANDLE = "64 word"
type_synonym DWORD = "32 word"
type_synonym BYTE = "8 word"

definition INVALID_HANDLE_VALUE :: HANDLE where
  "INVALID_HANDLE_VALUE = - 1"

definition GetCurrentProcess :: HANDLE where
  "GetCurrentProcess = - 1"

definition ERROR_INVALID_HANDLE :: DWORD where
  "ERROR_INVALID_HANDLE = 6"

section \<open>GenericWrapper\<close>

text \<open>
  A \<^verbatim>\<open>GenericWrapper<T>\<close> holds a \<^verbatim>\<open>std::shared_ptr<void>\<close> built from
  \<^verbatim>\<open>nullptr\<close> and a deleter. The shared pointer owns a control block with the use
  count and the deleter; the deleter is a closure that captured \<^verbatim>\<open>object\<close>,
  \<^verbatim>\<open>BadValue\<close> and \<^verbatim>\<open>freeFunction\<close> by value when the wrapper was
  constructed. Control blocks live in a store indexed by their address. The release
  function acts on the state \<open>'s\<close> of the outside world.
\<close>

record ('a, 's) control_block =
  use_count :: nat
  captured_object :: 'a
  captured_BadValue :: "'a option"
  captured_freeFunction :: "'a \<Rightarrow> 's \<Rightarrow> 's"

record ('a, 's) store =
  blocks :: "nat \<Rightarrow> ('a, 's) control_block option"
  next_block :: nat
  outside :: 's

record 'a GenericWrapper =
  ReferenceCounter :: nat
  WrappedObject :: 'a
  BadValue :: "'a option"

text \<open>
  Comparison of a value with a \<^verbatim>\<open>std::optional\<close>: an empty optional differs from
  every value.
\<close>

definition eq_optional :: "'a \<Rightarrow> 'a option \<Rightarrow> bool" where
  "eq_optional x opt = (case opt of None \<Rightarrow> False | Some b \<Rightarrow> x = b)"

definition ne_optional :: "'a \<Rightarrow> 'a option \<Rightarrow> bool" where
  "ne_optional x opt = (case opt of None \<Rightarrow> True | Some b \<Rightarrow> x \<noteq> b)"

text \<open>
  The deleter of the constructor:
  \<^verbatim>\<open>if((!BadValue || object != BadValue) && object){ freeFunction(object); }\<close>
\<close>

definition deleter :: "('a::zero, 's) control_block \<Rightarrow> 's \<Rightarrow> 's" where
  "deleter cb s =
     (if (captured_BadValue cb = None \<or> ne_optional (captured_object cb) (captured_BadValue cb))
         \<and> captured_object cb \<noteq> 0
      then captured_freeFunction cb (captured_object cb) s
      else s)"

text \<open>The constructor allocates a fresh control block with use count 1.\<close>

definition GenericWrapper_ctor ::
  "'a \<Rightarrow> ('a \<Rightarrow> 's \<Rightarrow> 's) \<Rightarrow> 'a option \<Rightarrow> ('a, 's) store \<Rightarrow> 'a GenericWrapper \<times> ('a, 's) store" where
  "GenericWrapper_ctor object freeFunction bad st =
     (let r = next_block st in
      (\<lparr>ReferenceCounter = r, WrappedObject = object, BadValue = bad\<rparr>,
       st\<lparr>blocks := (blocks st)(r \<mapsto>
             \<lparr>use_count = 1, captured_object = object, captured_BadValue = bad,
              captured_freeFunction = freeFunction\<rparr>),
          next_block := Suc r\<rparr>))"

text \<open>
  The implicit copy constructor copies the three members; copying the shared pointer
  increments the use count.
\<close>

definition GenericWrapper_copy ::
  "'a GenericWrapper \<Rightarrow> ('a, 's) store \<Rightarrow> 'a GenericWrapper \<times> ('a, 's) store" where
  "GenericWrapper_copy w st =
     (case blocks st (ReferenceCounter w) of
        None \<Rightarrow> (w, st)
      | Some cb \<Rightarrow>
          (w, st\<lparr>blocks := (blocks st)(ReferenceCounter w \<mapsto> cb\<lparr>use_count := Suc (use_count cb)\<rparr>)\<rparr>))"

text \<open>
  The implicit destructor destroys the shared pointer: the use count drops, and the owner
  that drops it to zero runs the deleter and frees the control block.
\<close>

definition GenericWrapper_dtor :: "'a::zero GenericWrapper \<Rightarrow> ('a, 's) store \<Rightarrow> ('a, 's) store" where
  "GenericWrapper_dtor w st =
     (case blocks st (ReferenceCounter w) of
        None \<Rightarrow> st
      | Some cb \<Rightarrow>
          if 1 < use_count cb
          then st\<lparr>blocks := (blocks st)(ReferenceCounter w \<mapsto> cb\<lparr>use_count := use_count cb - 1\<rparr>)\<rparr>
          else st\<lparr>blocks := (blocks st)(ReferenceCounter w := None),
                  outside := deleter cb (outside st)\<rparr>)"

text \<open>\<^verbatim>\<open>bool operator !() const{ return !WrappedObject || WrappedObject == BadValue; }\<close>\<close>

definition operator_not :: "'a::zero GenericWrapper \<Rightarrow> bool" where
  "operator_not w \<longleftrightarrow> WrappedObject w = 0 \<or> eq_optional (WrappedObject w) (BadValue w)"

text \<open>\<^verbatim>\<open>operator bool() const{ return !operator!(); }\<close>\<close>

definition operator_bool :: "'a::zero GenericWrapper \<Rightarrow> bool" where
  "operator_bool w \<longleftrightarrow> \<not> operator_not w"

definition Get :: "'a GenericWrapper \<Rightarrow> 'a" where
  "Get w = WrappedObject w"

text \<open>
  \<^verbatim>\<open>T* operator &() const{ return const_cast<T*>(&WrappedObject); }\<close>
  hands out the address of the member, for functions that fill a handle through an
  out-parameter. A store through that address changes the member of this one wrapper;
  the control block, with the values the deleter captured, is out of its reach.
  \<open>store_through_address v w\<close> is the wrapper \<open>w\<close> after \<^verbatim>\<open>*(&w) = v\<close>.

  \<^verbatim>\<open>T Release(){ auto tmp = WrappedObject; WrappedObject = BadValue; return tmp; }\<close>
  assigns the \<^verbatim>\<open>std::optional<T>\<close> member to the member of type \<^verbatim>\<open>T\<close>, which
  is ill-formed for a handle or an integer: the member function cannot be instantiated,
  and it has no definition here.
\<close>

definition store_through_address :: "'a \<Rightarrow> 'a GenericWrapper \<Rightarrow> 'a GenericWrapper" where
  "store_through_address v w = w\<lparr>WrappedObject := v\<rparr>"

section \<open>HandleWrapper\<close>

text \<open>
  The outside world of a handle: what the probe \<^verbatim>\<open>GetFileInformationByHandle\<close>
  answers for each handle (success, or failure with the code \<^verbatim>\<open>GetLastError\<close> then
  reports), and the handles passed to \<^verbatim>\<open>CloseHandle\<close> so far, in call order.
\<close>

datatype probe_result = Probe_succeeds | Probe_fails DWORD

record handle_os =
  GetFileInformationByHandle :: "HANDLE \<Rightarrow> probe_result"
  CloseHandle_calls :: "HANDLE list"

definition CloseHandle :: "HANDLE \<Rightarrow> handle_os \<Rightarrow> handle_os" where
  "CloseHandle handle os = os\<lparr>CloseHandle_calls := CloseHandle_calls os @ [handle]\<rparr>"

definition SafeCloseHandle :: "HANDLE \<Rightarrow> handle_os \<Rightarrow> handle_os" where
  "SafeCloseHandle handle os =
     (case GetFileInformationByHandle os handle of
        Probe_succeeds \<Rightarrow> CloseHandle handle os
      | Probe_fails a \<Rightarrow> if a \<noteq> ERROR_INVALID_HANDLE then CloseHandle handle os else os)"

type_synonym HandleWrapper = "HANDLE GenericWrapper"

definition HandleWrapper_ctor ::
  "HANDLE \<Rightarrow> (HANDLE, handle_os) store \<Rightarrow> HandleWrapper \<times> (HANDLE, handle_os) store" where
  "HandleWrapper_ctor handle st =
     GenericWrapper_ctor handle SafeCloseHandle (Some INVALID_HANDLE_VALUE) st"

section \<open>Copies and destruction order\<close>

text \<open>
  \<open>copies n w\<close> copy-constructs \<open>n\<close> further wrappers from \<open>w\<close>; \<open>destroy_all ws\<close>
  destroys the wrappers \<open>ws\<close> in list order.
\<close>

fun copies :: "nat \<Rightarrow> 'a GenericWrapper \<Rightarrow> ('a, 's) store \<Rightarrow> ('a, 's) store" where
  "copies 0 w st = st"
| "copies (Suc n) w st = copies n w (snd (GenericWrapper_copy w st))"

fun destroy_all :: "'a::zero GenericWrapper list \<Rightarrow> ('a, 's) store \<Rightarrow> ('a, 's) store" where
  "destroy_all [] st = st"
| "destroy_all (w # ws) st = destroy_all ws (GenericWrapper_dtor w st)"

definition valid_object :: "'a::zero \<Rightarrow> 'a option \<Rightarrow> bool" where
  "valid_object object bad \<longleftrightarrow> object \<noteq> 0 \<and> Some object \<noteq> bad"


definition empty_store :: "'s \<Rightarrow> ('a, 's) store" where
  "empty_store s = \<lparr>blocks = (\<lambda>r. None), next_block = 0, outside = s\<rparr>"

section \<open>Memory and the operating system\<close>

text \<open>
  Addresses, sizes (\<^verbatim>\<open>SIZE_T\<close>, and \<^verbatim>\<open>DWORD\<close> where it counts bytes) and the
  non-negative counters of the loops are natural numbers, the null pointer is address 0,
  and an \<^verbatim>\<open>int\<close> index is an integer. Arithmetic on them is exact in the model: sizes
  of \<open>2 ^ 31\<close> bytes and more, where an \<^verbatim>\<open>int\<close> counter of the source would
  overflow, are outside the model.

  The state of the machine, as far as the memory wrappers touch it: the contents of the
  local address space, what the operating system answers to each primitive, and the log
  of the primitives called so far.
\<close>

type_synonym LPVOID = nat
type_synonym SIZE_T = nat


datatype os_call =
    Call_ReadProcessMemory HANDLE LPVOID SIZE_T
  | Call_VirtualProtect LPVOID SIZE_T DWORD
  | Call_VirtualProtectEx HANDLE LPVOID SIZE_T DWORD
  | Call_VirtualAlloc SIZE_T
  | Call_HeapAlloc SIZE_T
  | Call_MoveMemory LPVOID LPVOID SIZE_T

record memory_os =
  local_memory :: "LPVOID \<Rightarrow> BYTE"
  remote_memory :: "HANDLE \<Rightarrow> LPVOID \<Rightarrow> SIZE_T \<Rightarrow> BYTE list option"
  VirtualProtect_answer :: "LPVOID \<Rightarrow> SIZE_T \<Rightarrow> DWORD \<Rightarrow> bool"
  VirtualProtectEx_answer :: "HANDLE \<Rightarrow> LPVOID \<Rightarrow> SIZE_T \<Rightarrow> DWORD \<Rightarrow> bool"
  VirtualAlloc_answer :: "SIZE_T \<Rightarrow> LPVOID"
  HeapAlloc_answer :: "SIZE_T \<Rightarrow> LPVOID"
  new_char :: "nat \<Rightarrow> BYTE list"
  os_log :: "os_call list"

text \<open>
  \<open>remote_memory os h a n\<close> is what a read of \<open>n\<close> bytes at address \<open>a\<close> of the process
  behind handle \<open>h\<close> delivers, \<open>None\<close> when the read fails. \<open>new_char os n\<close> is the
  content of a buffer fresh from \<^verbatim>\<open>new char[n]\<close>, which the language leaves
  indeterminate. A failed remote read leaves the caller's buffer as it was.
\<close>

definition ReadProcessMemory ::
  "HANDLE \<Rightarrow> LPVOID \<Rightarrow> SIZE_T \<Rightarrow> memory_os \<Rightarrow> BYTE list option \<times> memory_os" where
  "ReadProcessMemory hProcess lpBaseAddress nSize os =
     (remote_memory os hProcess lpBaseAddress nSize,
      os\<lparr>os_log := os_log os @ [Call_ReadProcessMemory hProcess lpBaseAddress nSize]\<rparr>)"



text \<open>
  Both allocators hand out zeroed memory (\<^verbatim>\<open>MEM_COMMIT\<close> pages,
  \<^verbatim>\<open>HEAP_ZERO_MEMORY\<close>); a failed allocation returns the null pointer.
\<close>

definition zero_fill :: "LPVOID \<Rightarrow> SIZE_T \<Rightarrow> (LPVOID \<Rightarrow> BYTE) \<Rightarrow> (LPVOID \<Rightarrow> BYTE)" where
  "zero_fill p n m = (\<lambda>a. if p \<noteq> 0 \<and> p \<le> a \<and> a < p + n then 0 else m a)"

definition VirtualAlloc :: "SIZE_T \<Rightarrow> memory_os \<Rightarrow> LPVOID \<times> memory_os" where
  "VirtualAlloc dwSize os =
     (VirtualAlloc_answer os dwSize,
      os\<lparr>local_memory := zero_fill (VirtualAlloc_answer os dwSize) dwSize (local_memory os),
         os_log := os_log os @ [Call_VirtualAlloc dwSize]\<rparr>)"

definition HeapAlloc :: "SIZE_T \<Rightarrow> memory_os \<Rightarrow> LPVOID \<times> memory_os" where
  "HeapAlloc dwBytes os =
     (HeapAlloc_answer os dwBytes,
      os\<lparr>local_memory := zero_fill (HeapAlloc_answer os dwBytes) dwBytes (local_memory os),
         os_log := os_log os @ [Call_HeapAlloc dwBytes]\<rparr>)"

text \<open>\<^verbatim>\<open>MoveMemory(Destination, Source, Length)\<close> copies as if through a temporary.\<close>

definition MoveMemory :: "LPVOID \<Rightarrow> LPVOID \<Rightarrow> SIZE_T \<Rightarrow> memory_os \<Rightarrow> memory_os" where
  "MoveMemory Destination Source Length os =
     os\<lparr>local_memory :=
          (\<lambda>a. if Destination \<le> a \<and> a < Destination + Length
                then local_memory os (Source + (a - Destination))
                else local_memory os a),
        os_log := os_log os @ [Call_MoveMemory Destination Source Length]\<rparr>"

text \<open>The bytes a successful remote read stores at a local buffer address.\<close>

definition store_bytes :: "LPVOID \<Rightarrow> BYTE list \<Rightarrow> memory_os \<Rightarrow> memory_os" where
  "store_bytes p bs os =
     os\<lparr>local_memory :=
          (\<lambda>a. if p \<le> a \<and> a < p + length bs then bs ! (a - p) else local_memory os a)\<rparr>"

text \<open>The \<open>n\<close> bytes of local memory from address \<open>a\<close> on.\<close>

definition local_bytes :: "memory_os \<Rightarrow> LPVOID \<Rightarrow> nat \<Rightarrow> BYTE list" where
  "local_bytes os a n = map (\<lambda>k. local_memory os (a + k)) [0..<n]"

section \<open>AllocationWrapper\<close>

datatype AllocationFunction =
  VIRTUAL_ALLOC | HEAP_ALLOC | MALLOC | CPP_ALLOC | CPP_ARRAY_ALLOC | STACK_ALLOC
  | LOCAL_ALLOC | GLOBAL_ALLOC

text \<open>
  \<^verbatim>\<open>Memory\<close> is the optional shared pointer: the address it manages and the
  allocation type its deleter frees it by.
\<close>

record AllocationWrapper =
  Memory :: "(LPVOID \<times> AllocationFunction) option"
  pointer :: LPVOID
  AllocationSize :: SIZE_T

definition AllocationWrapper_ctor ::
  "LPVOID \<Rightarrow> SIZE_T \<Rightarrow> AllocationFunction \<Rightarrow> AllocationWrapper" where
  "AllocationWrapper_ctor memory size' AllocationType =
     \<lparr>Memory = (if size' \<noteq> 0 \<and> memory \<noteq> 0 then Some (memory, AllocationType) else None),
      pointer = memory,
      AllocationSize = size'\<rparr>"

text \<open>
  \<^verbatim>\<open>i < AllocationSize\<close> compares an \<^verbatim>\<open>int\<close> with a \<^verbatim>\<open>SIZE_T\<close>: the
  \<^verbatim>\<open>int\<close> is converted to the unsigned type, where a negative value becomes larger
  than every size and a non-negative one keeps its value.
\<close>

definition int_less_SIZE_T :: "int \<Rightarrow> SIZE_T \<Rightarrow> bool" where
  "int_less_SIZE_T i n \<longleftrightarrow> 0 \<le> i \<and> nat i < n"

text \<open>\<^verbatim>\<open>pointer[i]\<close> for an \<^verbatim>\<open>int\<close> index.\<close>

definition subscript :: "(LPVOID \<Rightarrow> BYTE) \<Rightarrow> LPVOID \<Rightarrow> int \<Rightarrow> BYTE" where
  "subscript m p i = m (nat (int p + i))"

text \<open>
  \<^verbatim>\<open>CHAR operator[](int i) const { return Memory && i < AllocationSize ? pointer[i] : 0; }\<close>
\<close>

definition operator_index :: "(LPVOID \<Rightarrow> BYTE) \<Rightarrow> AllocationWrapper \<Rightarrow> int \<Rightarrow> BYTE" where
  "operator_index m this i =
     (if Memory this \<noteq> None \<and> int_less_SIZE_T i (AllocationSize this)
      then subscript m (pointer this) i else 0)"

definition AllocationWrapper_bool :: "AllocationWrapper \<Rightarrow> bool" where
  "AllocationWrapper_bool this \<longleftrightarrow> Memory this \<noteq> None"

definition GetSize :: "AllocationWrapper \<Rightarrow> nat" where
  "GetSize this = (if Memory this \<noteq> None then AllocationSize this mod 2 ^ 32 else 0)"

text \<open>
  \<^verbatim>\<open>Dereference<T>()\<close>: a value of type \<^verbatim>\<open>T\<close> is its \<^verbatim>\<open>sizeof(T)\<close> bytes.
\<close>

definition AllocationWrapper_Dereference ::
  "nat \<Rightarrow> (LPVOID \<Rightarrow> BYTE) \<Rightarrow> AllocationWrapper \<Rightarrow> BYTE list option" where
  "AllocationWrapper_Dereference sizeof_T m this =
     (if AllocationSize this < sizeof_T \<or> Memory this = None
      then None
      else Some (map (\<lambda>k. m (pointer this + k)) [0..<sizeof_T]))"

text \<open>
  The loop of \<^verbatim>\<open>CompareMemory\<close>:
  \<^verbatim>\<open>for(int i = 0; i < AllocationSize; i++) if(pointer[i] != wrapper[i]) return false;\<close>
  followed by \<^verbatim>\<open>return true;\<close>
\<close>

function CompareMemory_loop ::
  "(LPVOID \<Rightarrow> BYTE) \<Rightarrow> AllocationWrapper \<Rightarrow> AllocationWrapper \<Rightarrow> int \<Rightarrow> bool" where
  "CompareMemory_loop m this wrapper i =
     (if int_less_SIZE_T i (AllocationSize this)
      then (if subscript m (pointer this) i \<noteq> operator_index m wrapper i
            then False
            else CompareMemory_loop m this wrapper (i + 1))
      else True)"
  by pat_completeness auto
termination
  by (relation "measure (\<lambda>(m, this, wrapper, i). nat (int (AllocationSize this) - i))")
     (auto simp: int_less_SIZE_T_def)

definition CompareMemory ::
  "(LPVOID \<Rightarrow> BYTE) \<Rightarrow> AllocationWrapper \<Rightarrow> AllocationWrapper \<Rightarrow> bool" where
  "CompareMemory m this wrapper =
     (if \<not> AllocationWrapper_bool wrapper \<and> Memory this = None then True
      else if \<not> AllocationWrapper_bool wrapper \<or> Memory this = None then False
      else if AllocationSize wrapper = AllocationSize this then CompareMemory_loop m this wrapper 0
      else False)"

section \<open>MemoryWrapper\<close>

text \<open>
  A view: an address, the wrapper of the process handle and the declared size. The
  operations that depend on the element type \<^verbatim>\<open>T\<close> take \<^verbatim>\<open>sizeof(T)\<close>.
\<close>

record MemoryWrapper =
  address :: LPVOID
  process :: HandleWrapper
  MemorySize :: SIZE_T

text \<open>
  The constructor builds the \<^verbatim>\<open>HandleWrapper\<close> member from the raw handle, which is a
  new acquisition in the store of control blocks.
\<close>

definition MemoryWrapper_ctor ::
  "LPVOID \<Rightarrow> SIZE_T \<Rightarrow> HANDLE \<Rightarrow> (HANDLE, handle_os) store
     \<Rightarrow> MemoryWrapper \<times> (HANDLE, handle_os) store" where
  "MemoryWrapper_ctor lpMemoryBase size' proc st =
     (\<lparr>address = lpMemoryBase, process = fst (HandleWrapper_ctor proc st), MemorySize = size'\<rparr>,
      snd (HandleWrapper_ctor proc st))"

text \<open>
  \<^verbatim>\<open>GetOffset\<close> passes \<^verbatim>\<open>process\<close> to the constructor, which converts the wrapper
  to the raw handle it holds.
\<close>

definition GetOffset ::
  "SIZE_T \<Rightarrow> MemoryWrapper \<Rightarrow> (HANDLE, handle_os) store
     \<Rightarrow> MemoryWrapper \<times> (HANDLE, handle_os) store" where
  "GetOffset offset this st =
     (if offset > MemorySize this
      then MemoryWrapper_ctor 0 0 (Get (process this)) st
      else MemoryWrapper_ctor (address this + offset) (MemorySize this - offset)
             (Get (process this)) st)"





text \<open>
  \<^verbatim>\<open>std::string{ p }\<close> reads from \<open>p\<close> up to the first zero byte. Nothing bounds the
  scan of memory, so it is a partial function; on a buffer of the model it ends at the
  end of the list at the latest.
\<close>

partial_function (option) c_string_at :: "(LPVOID \<Rightarrow> BYTE) \<Rightarrow> LPVOID \<Rightarrow> BYTE list \<Rightarrow> BYTE list option" where
  "c_string_at m a acc = (if m a = 0 then Some (rev acc) else c_string_at m (a + 1) (m a # acc))"

definition c_string_of :: "BYTE list \<Rightarrow> BYTE list" where
  "c_string_of buffer = takeWhile (\<lambda>c. c \<noteq> 0) buffer"

text \<open>
  The inner loop of the remote \<^verbatim>\<open>ReadString\<close>, with the buffer replaced after every
  non-zero byte as the source does:
  \<^verbatim>\<open>for(; idx < maxIdx; idx++){ if(memory[idx] == 0){ valid = true; break; }
     delete[] memory; memory = new char[maxIdx * 2]; }\<close>
  The result is \<open>(idx, memory, valid)\<close>.
\<close>

function ReadString_for ::
  "(nat \<Rightarrow> BYTE list) \<Rightarrow> nat \<Rightarrow> nat \<Rightarrow> BYTE list \<Rightarrow> nat \<times> BYTE list \<times> bool" where
  "ReadString_for fresh idx maxIdx memory =
     (if idx < maxIdx
      then (if memory ! idx = 0
            then (idx, memory, True)
            else ReadString_for fresh (idx + 1) maxIdx (fresh (maxIdx * 2)))
      else (idx, memory, False))"
  by pat_completeness auto
termination
  by (relation "measure (\<lambda>(fresh, idx, maxIdx, memory). maxIdx - idx)") auto

text \<open>
  The outer loop:
  \<^verbatim>\<open>while(!valid && !ReadProcessMemory(process, address, memory,
     maxIdx = min(maxIdx * 2, MemorySize), nullptr))\<close>
  It goes on while the remote read fails, and may go on for ever. The result is
  \<open>(memory, valid)\<close> and the state of the machine.
\<close>

partial_function (option) ReadString_while ::
  "HANDLE \<Rightarrow> LPVOID \<Rightarrow> SIZE_T \<Rightarrow> nat \<Rightarrow> nat \<Rightarrow> BYTE list \<Rightarrow> bool \<Rightarrow> memory_os
     \<Rightarrow> ((BYTE list \<times> bool) \<times> memory_os) option" where
  "ReadString_while h a size' idx maxIdx memory valid os =
     (if valid then Some ((memory, valid), os)
      else
        (let maxIdx' = min (maxIdx * 2) size';
             r = ReadProcessMemory h a maxIdx' os
         in if fst r \<noteq> None
            then Some ((take maxIdx' (the (fst r)) @ drop maxIdx' memory, valid), snd r)
            else
              (let s = ReadString_for (new_char (snd r)) idx maxIdx' memory
               in ReadString_while h a size' (fst s) maxIdx' (fst (snd s)) (snd (snd s)) (snd r))))"

definition ReadString :: "MemoryWrapper \<Rightarrow> memory_os \<Rightarrow> (BYTE list \<times> memory_os) option" where
  "ReadString this os =
     (if operator_not (process this)
      then map_option (\<lambda>s. (s, os)) (c_string_at (local_memory os) (address this) [])
      else map_option
             (\<lambda>((memory, valid), os'). (if valid then c_string_of memory else [], os'))
             (ReadString_while (Get (process this)) (address this) (MemorySize this) 0 10
                (new_char os (10 * 2)) False os))"

text \<open>\<^verbatim>\<open>ToAllocationWrapper(DWORD size)\<close>; the threshold is \<^verbatim>\<open>0x8000\<close>.\<close>

definition ToAllocationWrapper ::
  "nat \<Rightarrow> MemoryWrapper \<Rightarrow> memory_os \<Rightarrow> AllocationWrapper \<times> memory_os" where
  "ToAllocationWrapper size0 this os =
     (let size' = min size0 (MemorySize this) in
      if size' > 0x8000
      then
        (let a = VirtualAlloc size' os;
             wrapper = AllocationWrapper_ctor (fst a) size' VIRTUAL_ALLOC
         in if operator_bool (process this)
            then
              (let r = ReadProcessMemory (Get (process this)) (address this) size' (snd a)
               in case fst r of
                    Some bs \<Rightarrow> (wrapper, store_bytes (pointer wrapper) bs (snd r))
                  | None \<Rightarrow> (AllocationWrapper_ctor 0 0 STACK_ALLOC, snd r))
            else (wrapper, MoveMemory (pointer wrapper) (address this) size' (snd a)))
      else
        (let a = HeapAlloc size' os;
             wrapper = AllocationWrapper_ctor (fst a) size' HEAP_ALLOC
         in if operator_bool (process this)
            then
              (let r = ReadProcessMemory (Get (process this)) (address this) size' (snd a)
               in case fst r of
                    Some bs \<Rightarrow> (wrapper, store_bytes (pointer wrapper) bs (snd r))
                  | None \<Rightarrow> (AllocationWrapper_ctor 0 0 STACK_ALLOC, snd r))
            else (wrapper, MoveMemory (pointer wrapper) (address this) size' (snd a))))"

section \<open>Observing the machine\<close>


text \<open>
  A machine for the examples: the given local and remote memory, protection changes that
  succeed, allocators that answer with fixed addresses, fresh buffers filled with the
  letter A, and an empty log. \<open>no_handles\<close> is a store without control blocks over a
  world where every probe succeeds and nothing was closed.
\<close>

definition example_os ::
  "(LPVOID \<Rightarrow> BYTE) \<Rightarrow> (HANDLE \<Rightarrow> LPVOID \<Rightarrow> SIZE_T \<Rightarrow> BYTE list option) \<Rightarrow> memory_os" where
  "example_os m remote =
     \<lparr>local_memory = m, remote_memory = remote,
      VirtualProtect_answer = (\<lambda>a n p. True), VirtualProtectEx_answer = (\<lambda>h a n p. True),
      VirtualAlloc_answer = (\<lambda>n. 65536), HeapAlloc_answer = (\<lambda>n. 8192),
      new_char = (\<lambda>n. replicate n 65), os_log = []\<rparr>"

definition no_handles :: "(HANDLE, handle_os) store" where
  "no_handles =
     empty_store \<lparr>GetFileInformationByHandle = (\<lambda>h. Probe_succeeds), CloseHandle_calls = []\<rparr>"

section \<open>Ownership: the release action runs once, at the last destruction\<close>

lemma deleter_valid:
  "deleter cb s =
     (if valid_object (captured_object cb) (captured_BadValue cb)
      then captured_freeFunction cb (captured_object cb) s else s)"
  by (cases "captured_BadValue cb") (auto simp: deleter_def valid_object_def ne_optional_def)

lemma ctor_block:
  assumes "GenericWrapper_ctor object f bad st0 = (w, st1)"
  shows "blocks st1 (ReferenceCounter w) =
           Some \<lparr>use_count = 1, captured_object = object, captured_BadValue = bad,
                 captured_freeFunction = f\<rparr>"
    and "outside st1 = outside st0"
    and "WrappedObject w = object" and "BadValue w = bad"
  using assms by (auto simp: GenericWrapper_ctor_def Let_def)

lemma copies_block:
  assumes "blocks st r = Some cb" and "ReferenceCounter w = r"
  shows "blocks (copies n w st) r = Some (cb\<lparr>use_count := use_count cb + n\<rparr>)
         \<and> outside (copies n w st) = outside st"
  using assms
proof (induction n arbitrary: st cb)
  case 0
  then show ?case by simp
next
  case (Suc n)
  let ?st = "snd (GenericWrapper_copy w st)"
  have b: "blocks ?st r = Some (cb\<lparr>use_count := Suc (use_count cb)\<rparr>)"
    using Suc.prems by (simp add: GenericWrapper_copy_def)
  have o: "outside ?st = outside st"
    using Suc.prems by (simp add: GenericWrapper_copy_def)
  from Suc.IH [OF b Suc.prems(2)] o show ?case by simp
qed

lemma destroy_all_block:
  assumes "blocks st r = Some cb"
    and "\<forall>v \<in> set ws. ReferenceCounter v = r"
    and "length ws \<le> use_count cb" and "0 < use_count cb"
  shows "outside (destroy_all ws st) =
           (if length ws = use_count cb then deleter cb (outside st) else outside st)"
  using assms
proof (induction ws arbitrary: st cb)
  case Nil
  then show ?case by simp
next
  case (Cons v ws)
  have rv: "ReferenceCounter v = r" using Cons.prems(2) by simp
  show ?case
  proof (cases "1 < use_count cb")
    case True
    let ?cb = "cb\<lparr>use_count := use_count cb - 1\<rparr>"
    let ?st = "GenericWrapper_dtor v st"
    have b: "blocks ?st r = Some ?cb" and o: "outside ?st = outside st"
      using Cons.prems(1) rv True by (simp_all add: GenericWrapper_dtor_def)
    have "outside (destroy_all ws ?st) =
            (if length ws = use_count ?cb then deleter ?cb (outside ?st) else outside ?st)"
      using Cons.prems True by (intro Cons.IH [OF b]) auto
    moreover have "deleter ?cb = deleter cb"
      by (rule ext) (simp add: deleter_def)
    ultimately show ?thesis using True o by auto
  next
    case False
    then have one: "use_count cb = 1"
      using Cons.prems(4) by simp
    then have nil: "ws = []"
      using Cons.prems(3) by simp
    show ?thesis
      using Cons.prems(1) rv one nil by (simp add: GenericWrapper_dtor_def)
  qed
qed

lemma destroy_shared:
  assumes "GenericWrapper_ctor object f bad st0 = (w, st1)"
    and "\<forall>v \<in> set ws. ReferenceCounter v = ReferenceCounter w"
    and "length ws \<le> Suc n"
  shows "outside (destroy_all ws (copies n w st1)) =
           (if length ws = Suc n
            then deleter \<lparr>use_count = 1, captured_object = object, captured_BadValue = bad,
                           captured_freeFunction = f\<rparr> (outside st0)
            else outside st0)"
proof -
  let ?cb = "\<lparr>use_count = 1, captured_object = object, captured_BadValue = bad,
              captured_freeFunction = f\<rparr>"
  let ?cbn = "?cb\<lparr>use_count := use_count ?cb + n\<rparr>"
  have b: "blocks (copies n w st1) (ReferenceCounter w) = Some ?cbn"
    and o: "outside (copies n w st1) = outside st0"
    using copies_block [OF ctor_block(1) [OF assms(1)] refl, of n] ctor_block(2) [OF assms(1)]
    by simp_all
  have "outside (destroy_all ws (copies n w st1)) =
          (if length ws = use_count ?cbn then deleter ?cbn (outside (copies n w st1))
           else outside (copies n w st1))"
    using assms(2,3) by (intro destroy_all_block [OF b]) auto
  moreover have "deleter ?cbn = deleter ?cb"
    by (rule ext) (simp add: deleter_def)
  ultimately show ?thesis
    by (simp add: o)
qed

text \<open>
  What the code guarantees: one constructor call shared by \<open>n + 1\<close> wrappers releases
  according to the constructor's argument alone. Destroying fewer than all owners leaves
  the outside world untouched; destroying the last one applies the release function once
  to the constructor's \<open>object\<close>, provided that argument was neither null nor the
  sentinel. What the destroyed wrappers hold in \<open>WrappedObject\<close> plays no part.
\<close>

lemma release_follows_constructor_argument:
  assumes "GenericWrapper_ctor object freeFunction bad st0 = (w, st1)"
    and "\<forall>v \<in> set ws. ReferenceCounter v = ReferenceCounter w"
    and "length ws \<le> Suc n"
  shows "outside (destroy_all ws (copies n w st1)) =
           (if length ws = Suc n \<and> object \<noteq> 0 \<and> Some object \<noteq> bad
            then freeFunction object (outside st0)
            else outside st0)"
  using destroy_shared [OF assms]
  by (simp add: deleter_valid valid_object_def)

text \<open>
  Claim C1, evaluated on handle wrappers. First a wrapper constructed on the null handle
  and filled with handle 68 through \<open>operator &\<close>, then copied: both owners wrap the
  valid handle 68 (their \<open>operator_bool\<close> is true), and when both are destroyed
  \<open>CloseHandle\<close> has not been called at all, where the claim has the release action
  run once. Then a wrapper constructed on handle 68 whose member is overwritten with
  the sentinel, then copied: both owners wrap \<open>INVALID_HANDLE_VALUE\<close> (their
  \<open>operator_not\<close> is true), and the destruction of the last one calls \<open>CloseHandle\<close>
  on 68, where the claim has no release for a wrapped sentinel. The deleter tests the
  \<open>object\<close> it captured in the constructor, never the member.
\<close>

theorem release_action_ignores_wrapped_value:
  "(let w = store_through_address 68 (fst (HandleWrapper_ctor 0 no_handles));
        st = snd (GenericWrapper_copy w (snd (HandleWrapper_ctor 0 no_handles)))
    in (operator_bool w, Get w, CloseHandle_calls (outside (destroy_all [w, w] st))))
     = (True, 68, [])
   \<and> (let v = store_through_address INVALID_HANDLE_VALUE (fst (HandleWrapper_ctor 68 no_handles));
          st = snd (GenericWrapper_copy v (snd (HandleWrapper_ctor 68 no_handles)))
      in (operator_not v, Get v,
          CloseHandle_calls (outside (destroy_all [v] st)),
          CloseHandle_calls (outside (destroy_all [v, v] st))))
     = (True, INVALID_HANDLE_VALUE, [], [68])"
  by (simp add: HandleWrapper_ctor_def GenericWrapper_ctor_def GenericWrapper_copy_def
      no_handles_def empty_store_def Let_def store_through_address_def Get_def
      operator_bool_def operator_not_def eq_optional_def GenericWrapper_dtor_def deleter_def
      ne_optional_def SafeCloseHandle_def CloseHandle_def INVALID_HANDLE_VALUE_def)

section \<open>Release\<close>

text \<open>
  Claim C2. \<open>Release\<close> cannot be instantiated for a handle, so no run of the program
  calls it. What it is written to do can be done by hand: read the raw handle with
  \<open>Get\<close>, then store the sentinel in the member through \<open>operator &\<close>. The wrapper of
  handle 68 then holds \<open>INVALID_HANDLE_VALUE\<close>, and its destruction as the only owner
  still calls \<open>CloseHandle\<close> on 68: the state \<open>Release\<close> aims at does not detach the
  handle from the deleter.
\<close>

theorem sentinel_in_member_does_not_detach:
  "(let w = fst (HandleWrapper_ctor 68 no_handles);
        st = snd (HandleWrapper_ctor 68 no_handles);
        tmp = Get w;
        w' = store_through_address INVALID_HANDLE_VALUE w
    in (tmp, Get w', CloseHandle_calls (outside (GenericWrapper_dtor w' st))))
   = (68, INVALID_HANDLE_VALUE, [68])"
  by (simp add: HandleWrapper_ctor_def GenericWrapper_ctor_def no_handles_def empty_store_def
      Let_def store_through_address_def Get_def GenericWrapper_dtor_def deleter_def
      ne_optional_def SafeCloseHandle_def CloseHandle_def INVALID_HANDLE_VALUE_def)

section \<open>SafeCloseHandle\<close>

text \<open>
  Claim C4. A handle wrapper of a handle that is neither null nor
  \<open>INVALID_HANDLE_VALUE\<close>, shared by \<open>n + 1\<close> owners. When all of them are destroyed,
  \<open>CloseHandle\<close> has been called on the handle, once, unless the probe
  \<open>GetFileInformationByHandle\<close> fails with \<open>ERROR_INVALID_HANDLE\<close>; in that case, and
  only in that case, no call is made.
\<close>

theorem close_skipped_exactly_on_invalid_handle_error:
  assumes "handle \<noteq> 0" and "handle \<noteq> INVALID_HANDLE_VALUE"
    and "HandleWrapper_ctor handle st0 = (w, st1)"
    and "\<forall>v \<in> set ws. ReferenceCounter v = ReferenceCounter w"
    and "length ws = Suc n"
  shows "CloseHandle_calls (outside (destroy_all ws (copies n w st1))) =
           (if GetFileInformationByHandle (outside st0) handle = Probe_fails ERROR_INVALID_HANDLE
            then CloseHandle_calls (outside st0)
            else CloseHandle_calls (outside st0) @ [handle])"
proof -
  have "outside (destroy_all ws (copies n w st1)) = SafeCloseHandle handle (outside st0)"
    using destroy_shared [OF assms(3) [unfolded HandleWrapper_ctor_def] assms(4), of n]
      assms(1,2,5)
    by (simp add: deleter_def ne_optional_def)
  then show ?thesis
    by (cases "GetFileInformationByHandle (outside st0) handle")
       (simp_all add: SafeCloseHandle_def CloseHandle_def)
qed

theorem close_skipped_exactly_on_invalid_handle_error_witness:
  "(let probe = (\<lambda>h. if h = 68 then Probe_fails 5 else Probe_fails ERROR_INVALID_HANDLE);
        st0 = empty_store \<lparr>GetFileInformationByHandle = probe, CloseHandle_calls = []\<rparr>;
        w = fst (HandleWrapper_ctor 68 st0); st1 = snd (HandleWrapper_ctor 68 st0);
        v = fst (HandleWrapper_ctor 72 st0); st2 = snd (HandleWrapper_ctor 72 st0)
    in CloseHandle_calls (outside (destroy_all [w, w] (copies 1 w st1))) = [68]
     \<and> CloseHandle_calls (outside (destroy_all [v, v] (copies 1 v st2))) = [])"
proof -
  let ?probe = "\<lambda>h :: HANDLE. if h = 68 then Probe_fails 5 else Probe_fails ERROR_INVALID_HANDLE"
  let ?st0 = "empty_store \<lparr>GetFileInformationByHandle = ?probe, CloseHandle_calls = []\<rparr>
                :: (HANDLE, handle_os) store"
  let ?w = "fst (HandleWrapper_ctor 68 ?st0)"
  let ?v = "fst (HandleWrapper_ctor 72 ?st0)"
  have n: "(68 :: HANDLE) \<noteq> 0" "(68 :: HANDLE) \<noteq> INVALID_HANDLE_VALUE"
    "(72 :: HANDLE) \<noteq> 0" "(72 :: HANDLE) \<noteq> INVALID_HANDLE_VALUE"
    by (simp_all add: INVALID_HANDLE_VALUE_def)
  have c: "HandleWrapper_ctor 68 ?st0 = (?w, snd (HandleWrapper_ctor 68 ?st0))"
    "HandleWrapper_ctor 72 ?st0 = (?v, snd (HandleWrapper_ctor 72 ?st0))"
    by simp_all
  have e: "(5 :: DWORD) \<noteq> ERROR_INVALID_HANDLE"
    by (simp add: ERROR_INVALID_HANDLE_def)
  show ?thesis
    using close_skipped_exactly_on_invalid_handle_error [OF n(1,2) c(1), of "[?w, ?w]" 1]
      close_skipped_exactly_on_invalid_handle_error [OF n(3,4) c(2), of "[?v, ?v]" 1] e
    by (simp add: Let_def empty_store_def)
qed

section \<open>AllocationWrapper: indexed read, typed read, comparison\<close>

declare CompareMemory_loop.simps [simp del]

lemma operator_index_backed:
  "Memory A \<noteq> None \<Longrightarrow> k < AllocationSize A \<Longrightarrow>
     operator_index m A (int k) = m (pointer A + k)"
  by (simp add: operator_index_def int_less_SIZE_T_def subscript_def nat_add_distrib)

lemma subscript_nat: "subscript m p (int k) = m (p + k)"
  by (simp add: subscript_def nat_add_distrib)

lemma CompareMemory_loop_iff:
  "0 \<le> i \<Longrightarrow>
   CompareMemory_loop m this wrapper i \<longleftrightarrow>
     (\<forall>k. nat i \<le> k \<and> k < AllocationSize this \<longrightarrow>
        m (pointer this + k) = operator_index m wrapper (int k))"
proof (induction m this wrapper i rule: CompareMemory_loop.induct)
  case (1 m this wrapper i)
  show ?case
  proof (cases "int_less_SIZE_T i (AllocationSize this)")
    case False
    then have "\<not> nat i < AllocationSize this"
      using "1.prems" by (simp add: int_less_SIZE_T_def)
    then show ?thesis
      using False by (subst CompareMemory_loop.simps) auto
  next
    case inside: True
    then have lt: "nat i < AllocationSize this"
      by (simp add: int_less_SIZE_T_def)
    have here: "subscript m (pointer this) i = m (pointer this + nat i)"
      "operator_index m wrapper i = operator_index m wrapper (int (nat i))"
      using "1.prems" subscript_nat [of m "pointer this" "nat i"] by simp_all
    show ?thesis
    proof (cases "subscript m (pointer this) i \<noteq> operator_index m wrapper i")
      case True
      then have "CompareMemory_loop m this wrapper i = False"
        using inside by (subst CompareMemory_loop.simps) simp
      moreover have "m (pointer this + nat i) \<noteq> operator_index m wrapper (int (nat i))"
        using True here by simp
      ultimately show ?thesis
        using lt by auto
    next
      case False
      then have step: "CompareMemory_loop m this wrapper i = CompareMemory_loop m this wrapper (i + 1)"
        using inside by (subst CompareMemory_loop.simps) simp
      have eq: "m (pointer this + nat i) = operator_index m wrapper (int (nat i))"
        using False here by simp
      have IH: "CompareMemory_loop m this wrapper (i + 1) \<longleftrightarrow>
          (\<forall>k. nat (i + 1) \<le> k \<and> k < AllocationSize this \<longrightarrow>
             m (pointer this + k) = operator_index m wrapper (int k))"
        using "1.IH" [OF inside] False "1.prems" by simp
      have suc: "nat (i + 1) = Suc (nat i)"
        using "1.prems" by simp
      show ?thesis
        unfolding step IH suc
      proof
        assume a: "\<forall>k. Suc (nat i) \<le> k \<and> k < AllocationSize this \<longrightarrow>
                     m (pointer this + k) = operator_index m wrapper (int k)"
        show "\<forall>k. nat i \<le> k \<and> k < AllocationSize this \<longrightarrow>
                m (pointer this + k) = operator_index m wrapper (int k)"
        proof (intro allI impI)
          fix k assume k: "nat i \<le> k \<and> k < AllocationSize this"
          show "m (pointer this + k) = operator_index m wrapper (int k)"
          proof (cases "k = nat i")
            case True
            then show ?thesis using eq by simp
          next
            case False
            then show ?thesis using a k by simp
          qed
        qed
      next
        assume "\<forall>k. nat i \<le> k \<and> k < AllocationSize this \<longrightarrow>
                  m (pointer this + k) = operator_index m wrapper (int k)"
        then show "\<forall>k. Suc (nat i) \<le> k \<and> k < AllocationSize this \<longrightarrow>
                     m (pointer this + k) = operator_index m wrapper (int k)"
          by simp
      qed
    qed
  qed
qed

lemma CompareMemory_backed:
  assumes "Memory P \<noteq> None" and "Memory Q \<noteq> None"
  shows "CompareMemory m P Q \<longleftrightarrow>
           AllocationSize P = AllocationSize Q
           \<and> (\<forall>k < AllocationSize P. m (pointer P + k) = m (pointer Q + k))"
proof (cases "AllocationSize Q = AllocationSize P")
  case False
  then show ?thesis
    using assms unfolding CompareMemory_def AllocationWrapper_bool_def by auto
next
  case True
  have "CompareMemory m P Q = CompareMemory_loop m P Q 0"
    using assms True
    by (cases "Memory P"; cases "Memory Q")
       (simp_all add: CompareMemory_def AllocationWrapper_bool_def)
  also have "\<dots> \<longleftrightarrow> (\<forall>k. k < AllocationSize P \<longrightarrow> m (pointer P + k) = operator_index m Q (int k))"
    using CompareMemory_loop_iff [of 0 m P Q] by simp
  also have "\<dots> \<longleftrightarrow> (\<forall>k < AllocationSize P. m (pointer P + k) = m (pointer Q + k))"
    using assms(2) True by (simp add: operator_index_backed)
  finally show ?thesis
    using True by simp
qed

lemma CompareMemory_unbacked:
  "Memory E = None \<Longrightarrow> CompareMemory m E N \<longleftrightarrow> Memory N = None"
  "Memory E = None \<Longrightarrow> CompareMemory m N E \<longleftrightarrow> Memory N = None"
  unfolding CompareMemory_def AllocationWrapper_bool_def by (cases "Memory N"; simp)+

text \<open>
  Claim C6. \<open>CompareMemory\<close> is reflexive; two allocations without backing memory
  compare equal; an allocation without backing memory and one with backing memory
  compare unequal, either way round; two allocations with backing memory compare equal
  exactly when their sizes are equal and their contents agree byte for byte; and
  allocations of different sizes compare unequal, whatever their bytes. Sizes are natural
  numbers and the loop counter is an integer, so the statement is about allocations whose
  size the \<^verbatim>\<open>int\<close> counter of the source can reach.
\<close>

theorem CompareMemory_equivalence_of_allocations:
  "CompareMemory m A A
   \<and> (Memory E = None \<and> Memory E' = None \<longrightarrow> CompareMemory m E E')
   \<and> (Memory U = None \<and> Memory N \<noteq> None \<longrightarrow> \<not> CompareMemory m U N \<and> \<not> CompareMemory m N U)
   \<and> (Memory P \<noteq> None \<and> Memory Q \<noteq> None \<longrightarrow>
        (CompareMemory m P Q \<longleftrightarrow>
           AllocationSize P = AllocationSize Q
           \<and> (\<forall>k < AllocationSize P. m (pointer P + k) = m (pointer Q + k))))
   \<and> (Memory S \<noteq> None \<and> Memory T \<noteq> None \<and> AllocationSize S \<noteq> AllocationSize T \<longrightarrow>
        \<not> CompareMemory m S T)"
proof -
  have "CompareMemory m A A"
  proof (cases "Memory A")
    case None
    then show ?thesis by (simp add: CompareMemory_unbacked)
  next
    case (Some a)
    then show ?thesis by (simp add: CompareMemory_backed)
  qed
  then show ?thesis
    by (simp add: CompareMemory_unbacked CompareMemory_backed)
qed

theorem CompareMemory_equivalence_of_allocations_witness:
  "(let m = (\<lambda>a :: nat. if a = 33 then 1 else 0 :: BYTE);
        A = AllocationWrapper_ctor 32 3 HEAP_ALLOC;
        E = AllocationWrapper_ctor 0 0 STACK_ALLOC;
        E' = AllocationWrapper_ctor 0 5 MALLOC;
        P = AllocationWrapper_ctor 16 3 HEAP_ALLOC;
        Q = AllocationWrapper_ctor 48 3 STACK_ALLOC;
        T = AllocationWrapper_ctor 48 4 STACK_ALLOC
    in CompareMemory m A A \<and> CompareMemory m E E'
       \<and> \<not> CompareMemory m E A \<and> \<not> CompareMemory m A E
       \<and> CompareMemory m P Q \<and> \<not> CompareMemory m P A \<and> \<not> CompareMemory m P T)"
proof -
  let ?m = "\<lambda>a :: nat. if a = 33 then 1 else 0 :: BYTE"
  let ?A = "AllocationWrapper_ctor 32 3 HEAP_ALLOC"
  let ?E = "AllocationWrapper_ctor 0 0 STACK_ALLOC"
  let ?E' = "AllocationWrapper_ctor 0 5 MALLOC"
  let ?P = "AllocationWrapper_ctor 16 3 HEAP_ALLOC"
  let ?Q = "AllocationWrapper_ctor 48 3 STACK_ALLOC"
  let ?T = "AllocationWrapper_ctor 48 4 STACK_ALLOC"
  have three: "\<And>R. (\<forall>k<3::nat. R k) \<longleftrightarrow> R 0 \<and> R 1 \<and> R 2"
    unfolding numeral_3_eq_3 numeral_2_eq_2 One_nat_def by (auto simp: less_Suc_eq)
  show ?thesis
    using CompareMemory_equivalence_of_allocations
            [of ?m ?A ?E ?E' ?E ?A ?P ?Q ?P ?T]
          CompareMemory_equivalence_of_allocations
            [of ?m ?A ?E ?E' ?E ?A ?P ?A ?P ?T]
    by (simp add: AllocationWrapper_ctor_def Let_def three)
qed

text \<open>
  Claim C7. An indexed read at an index at or beyond the declared size yields the zero
  byte, with or without backing memory and whatever memory holds; at a non-negative
  index below the size, with backing memory present, it yields the byte at that offset
  from the pointer.
\<close>

theorem operator_index_zero_out_of_range:
  "(int (AllocationSize A) \<le> i \<longrightarrow> operator_index m A i = 0)
   \<and> (0 \<le> j \<and> j < int (AllocationSize B) \<and> Memory B \<noteq> None \<longrightarrow>
        operator_index m B j = m (pointer B + nat j))"
  by (auto simp: operator_index_def int_less_SIZE_T_def subscript_def nat_add_distrib)

theorem operator_index_zero_out_of_range_witness:
  "(let m = (\<lambda>a :: nat. if a = 33 then 1 else 7 :: BYTE);
        A = AllocationWrapper_ctor 32 3 HEAP_ALLOC;
        E = AllocationWrapper_ctor 0 0 STACK_ALLOC
    in operator_index m A 3 = 0 \<and> operator_index m E 0 = 0 \<and> operator_index m A 1 = 1)"
proof -
  let ?m = "\<lambda>a :: nat. if a = 33 then 1 else 7 :: BYTE"
  let ?A = "AllocationWrapper_ctor 32 3 HEAP_ALLOC"
  let ?E = "AllocationWrapper_ctor 0 0 STACK_ALLOC"
  show ?thesis
    using operator_index_zero_out_of_range [of ?A 3 ?m 1 ?A]
          operator_index_zero_out_of_range [of ?E 0 ?m 1 ?A]
    by (simp add: AllocationWrapper_ctor_def Let_def)
qed

text \<open>
  Claim C8. The typed read yields nothing exactly when the size of the type exceeds the
  declared size or there is no backing memory; otherwise it yields the value held by the
  first \<open>sizeof_T\<close> bytes at the pointer.
\<close>

theorem Dereference_empty_exactly_when_too_large_or_unbacked:
  "(AllocationWrapper_Dereference sizeof_T m A = None
      \<longleftrightarrow> AllocationSize A < sizeof_T \<or> Memory A = None)
   \<and> (sizeof_T' \<le> AllocationSize B \<and> Memory B \<noteq> None \<longrightarrow>
        AllocationWrapper_Dereference sizeof_T' m B
          = Some (map (\<lambda>k. m (pointer B + k)) [0..<sizeof_T']))"
  by (auto simp: AllocationWrapper_Dereference_def)

theorem Dereference_empty_exactly_when_too_large_or_unbacked_witness:
  "(let m = (\<lambda>a :: nat. if a = 33 then 1 else 7 :: BYTE);
        A = AllocationWrapper_ctor 32 3 HEAP_ALLOC
    in AllocationWrapper_Dereference 4 m A = None
       \<and> AllocationWrapper_Dereference 2 m A = Some [7, 1])"
proof -
  let ?m = "\<lambda>a :: nat. if a = 33 then 1 else 7 :: BYTE"
  let ?A = "AllocationWrapper_ctor 32 3 HEAP_ALLOC"
  have two: "[0..<2] = [0, Suc 0]"
    by (simp add: upt_rec)
  show ?thesis
    using Dereference_empty_exactly_when_too_large_or_unbacked [of 4 ?m ?A 2 ?A]
    by (simp add: AllocationWrapper_ctor_def Let_def two)
qed

section \<open>MemoryWrapper: offsets, copies and the process context\<close>

lemma MemoryWrapper_ctor_fields:
  "address (fst (MemoryWrapper_ctor a s h st)) = a"
  "MemorySize (fst (MemoryWrapper_ctor a s h st)) = s"
  "WrappedObject (process (fst (MemoryWrapper_ctor a s h st))) = h"
  "BadValue (process (fst (MemoryWrapper_ctor a s h st))) = Some INVALID_HANDLE_VALUE"
  by (simp_all add: MemoryWrapper_ctor_def HandleWrapper_ctor_def GenericWrapper_ctor_def Let_def)

lemma store_bytes_bytes:
  "local_bytes (store_bytes p bs os) p (length bs) = bs"
  by (auto simp: local_bytes_def store_bytes_def intro!: nth_equalityI)

lemma MoveMemory_bytes:
  "local_bytes (MoveMemory p q c os) p c = local_bytes os q c"
  by (simp add: local_bytes_def MoveMemory_def)

lemma view_fields:
  assumes "MemoryWrapper_ctor a s h st = (this, st')"
  shows "address this = a" and "MemorySize this = s" and "Get (process this) = h"
    and "operator_not (process this) \<longleftrightarrow> h = 0 \<or> h = INVALID_HANDLE_VALUE"
    and "operator_bool (process this) \<longleftrightarrow> \<not> (h = 0 \<or> h = INVALID_HANDLE_VALUE)"
proof -
  have eq: "this = fst (MemoryWrapper_ctor a s h st)"
    using assms by simp
  show "address this = a" "MemorySize this = s" "Get (process this) = h"
    by (simp_all add: eq MemoryWrapper_ctor_fields Get_def)
  show "operator_not (process this) \<longleftrightarrow> h = 0 \<or> h = INVALID_HANDLE_VALUE"
    by (simp add: eq operator_not_def eq_optional_def MemoryWrapper_ctor_fields)
  then show "operator_bool (process this) \<longleftrightarrow> \<not> (h = 0 \<or> h = INVALID_HANDLE_VALUE)"
    by (simp add: operator_bool_def)
qed


lemma ReadString_while_stuck_aux:
  assumes run: "ReadString_while h a s idx maxIdx memory valid os = Some y"
  shows "\<not> (idx = s \<and> maxIdx = s \<and> \<not> valid \<and> (\<forall>n. remote_memory os h a n = None))"
proof (rule ReadString_while.raw_induct
    [where P = "\<lambda>h a s idx maxIdx memory valid os y.
        \<not> (idx = s \<and> maxIdx = s \<and> \<not> valid \<and> (\<forall>n. remote_memory os h a n = None))",
     OF _ run])
  fix f :: "HANDLE \<Rightarrow> LPVOID \<Rightarrow> SIZE_T \<Rightarrow> nat \<Rightarrow> nat \<Rightarrow> BYTE list \<Rightarrow> bool \<Rightarrow> memory_os
     \<Rightarrow> ((BYTE list \<times> bool) \<times> memory_os) option"
  fix h a s idx maxIdx memory valid os y
  assume IH: "\<And>h a s idx maxIdx memory valid os y.
        f h a s idx maxIdx memory valid os = Some y \<Longrightarrow>
        \<not> (idx = s \<and> maxIdx = s \<and> \<not> valid \<and> (\<forall>n. remote_memory os h a n = None))"
  assume body: "(if valid then Some ((memory, valid), os)
      else let maxIdx' = min (maxIdx * 2) s; r = ReadProcessMemory h a maxIdx' os
      in if fst r \<noteq> None
         then Some ((take maxIdx' (the (fst r)) @ drop maxIdx' memory, valid), snd r)
         else let s' = ReadString_for (new_char (snd r)) idx maxIdx' memory
              in f h a s (fst s') maxIdx' (fst (snd s')) (snd (snd s')) (snd r)) = Some y"
  show "\<not> (idx = s \<and> maxIdx = s \<and> \<not> valid \<and> (\<forall>n. remote_memory os h a n = None))"
  proof
    assume inv: "idx = s \<and> maxIdx = s \<and> \<not> valid \<and> (\<forall>n. remote_memory os h a n = None)"
    let ?r = "ReadProcessMemory h a s os"
    have m: "min (s * 2) s = s" by simp
    have r: "fst ?r = None" "\<forall>n. remote_memory (snd ?r) h a n = None"
      using inv by (simp_all add: ReadProcessMemory_def)
    have s: "ReadString_for (new_char (snd ?r)) s s memory = (s, memory, False)"
      by simp
    have "f h a s s s memory False (snd ?r) = Some y"
      using body inv r(1) by (simp add: Let_def m s)
    from IH [OF this] r(2) show False by simp
  qed
qed

lemma ReadString_while_stuck:
  assumes "\<forall>n. remote_memory os h a n = None"
  shows "ReadString_while h a s s s memory False os = None"
proof (cases "ReadString_while h a s s s memory False os")
  case None
  then show ?thesis .
next
  case (Some y)
  from ReadString_while_stuck_aux [OF this] assms show ?thesis by simp
qed


lemma example_views:
  "address (fst (MemoryWrapper_ctor a s h no_handles)) = a"
  "MemorySize (fst (MemoryWrapper_ctor a s h no_handles)) = s"
  "Get (process (fst (MemoryWrapper_ctor a s h no_handles))) = h"
  "operator_not (process (fst (MemoryWrapper_ctor a s h no_handles)))
     \<longleftrightarrow> h = 0 \<or> h = INVALID_HANDLE_VALUE"
  "operator_bool (process (fst (MemoryWrapper_ctor a s h no_handles)))
     \<longleftrightarrow> \<not> (h = 0 \<or> h = INVALID_HANDLE_VALUE)"
  using view_fields [of a s h no_handles "fst (MemoryWrapper_ctor a s h no_handles)"
      "snd (MemoryWrapper_ctor a s h no_handles)"]
  by simp_all

text \<open>
  Claim C5. For a view of address \<open>a\<close>, size \<open>s\<close> and process handle \<open>p\<close>:
  \<open>GetOffset k\<close> with \<open>k < s\<close> is a view of address \<open>a + k\<close>, size \<open>s - k\<close> and the
  same handle; \<open>GetOffset s\<close> is a view of size zero; \<open>GetOffset j\<close> with \<open>j > s\<close>
  is a view of null address and size zero.
\<close>

theorem GetOffset_shifts_view:
  "(k < MemorySize w \<longrightarrow>
      address (fst (GetOffset k w st)) = address w + k
      \<and> MemorySize (fst (GetOffset k w st)) = MemorySize w - k
      \<and> Get (process (fst (GetOffset k w st))) = Get (process w))
   \<and> MemorySize (fst (GetOffset (MemorySize v) v st)) = 0
   \<and> (MemorySize u < j \<longrightarrow>
        address (fst (GetOffset j u st)) = 0 \<and> MemorySize (fst (GetOffset j u st)) = 0)"
  by (simp add: GetOffset_def MemoryWrapper_ctor_fields Get_def)

theorem GetOffset_shifts_view_witness:
  "(let w = fst (MemoryWrapper_ctor 4096 20 68 no_handles);
        st = snd (MemoryWrapper_ctor 4096 20 68 no_handles)
    in address (fst (GetOffset 5 w st)) = 4101
       \<and> MemorySize (fst (GetOffset 5 w st)) = 15
       \<and> Get (process (fst (GetOffset 5 w st))) = 68
       \<and> MemorySize (fst (GetOffset 20 w st)) = 0
       \<and> address (fst (GetOffset 21 w st)) = 0
       \<and> MemorySize (fst (GetOffset 21 w st)) = 0)"
proof -
  let ?w = "fst (MemoryWrapper_ctor 4096 20 68 no_handles)"
  let ?st = "snd (MemoryWrapper_ctor 4096 20 68 no_handles)"
  have f: "address ?w = 4096" "MemorySize ?w = 20" "Get (process ?w) = 68"
    by (simp_all add: MemoryWrapper_ctor_fields Get_def)
  show ?thesis
    using GetOffset_shifts_view [where k = 5 and w = ?w and st = ?st and v = ?w and j = 21 and u = ?w]
    by (simp add: f Let_def)
qed

text \<open>
  Claim C9. \<open>ToAllocationWrapper size0\<close> works on \<open>c = min size0 MemorySize\<close> bytes. It
  calls \<open>VirtualAlloc\<close> when \<open>c\<close> is above \<open>0x8000\<close> and \<open>HeapAlloc\<close> otherwise, and
  wraps the address it gets, with size \<open>c\<close> and the matching allocation type, so that
  the wrapper owns the memory when the address is not null and \<open>c\<close> is not zero. In the
  local context the result is that wrapper and the bytes are copied by \<open>MoveMemory\<close>. In
  a foreign context a failed remote read yields the allocation built from the null
  pointer and size zero, which has no backing memory; a successful one yields the
  wrapper, with the bytes read stored in its memory.
\<close>

theorem ToAllocationWrapper_copies_min:
  assumes c: "c = min size0 (MemorySize this)"
    and al: "al = (if 0x8000 < c then VirtualAlloc c os else HeapAlloc c os)"
    and wr: "wrapper =
      AllocationWrapper_ctor (fst al) c (if 0x8000 < c then VIRTUAL_ALLOC else HEAP_ALLOC)"
    and h: "h = Get (process this)"
    and R: "R = ToAllocationWrapper size0 this os"
  shows
   "os_log (snd al) = os_log os @ [if 0x8000 < c then Call_VirtualAlloc c else Call_HeapAlloc c]
    \<and> AllocationSize wrapper = c
    \<and> (c \<noteq> 0 \<and> fst al \<noteq> 0 \<longrightarrow>
         Memory wrapper = Some (fst al, if 0x8000 < c then VIRTUAL_ALLOC else HEAP_ALLOC))
    \<and> (\<not> operator_bool (process this) \<longrightarrow>
         R = (wrapper, MoveMemory (fst al) (address this) c (snd al))
         \<and> local_bytes (snd R) (fst al) c = local_bytes (snd al) (address this) c)
    \<and> (operator_bool (process this) \<and> remote_memory os h (address this) c = None \<longrightarrow>
         fst R = AllocationWrapper_ctor 0 0 STACK_ALLOC \<and> Memory (fst R) = None
         \<and> os_log (snd R) = os_log (snd al) @ [Call_ReadProcessMemory h (address this) c])
    \<and> (operator_bool (process this) \<and> remote_memory os h (address this) c = Some bs \<longrightarrow>
         fst R = wrapper \<and> local_bytes (snd R) (fst al) (length bs) = bs
         \<and> os_log (snd R) = os_log (snd al) @ [Call_ReadProcessMemory h (address this) c])"
proof -
  let ?r = "ReadProcessMemory h (address this) c (snd al)"
  have rm: "remote_memory (snd al) = remote_memory os"
    by (simp add: al VirtualAlloc_def HeapAlloc_def)
  have R': "R = (if operator_bool (process this)
                then (case fst ?r of
                        Some bs \<Rightarrow> (wrapper, store_bytes (fst al) bs (snd ?r))
                      | None \<Rightarrow> (AllocationWrapper_ctor 0 0 STACK_ALLOC, snd ?r))
                else (wrapper, MoveMemory (fst al) (address this) c (snd al)))"
    unfolding R ToAllocationWrapper_def Let_def c [symmetric]
    by (simp add: al wr h AllocationWrapper_ctor_def split: option.split)
  have 1: "os_log (snd al) =
             os_log os @ [if 0x8000 < c then Call_VirtualAlloc c else Call_HeapAlloc c]"
    by (simp add: al VirtualAlloc_def HeapAlloc_def)
  have 2: "AllocationSize wrapper = c"
    by (simp add: wr AllocationWrapper_ctor_def)
  have 3: "c \<noteq> 0 \<and> fst al \<noteq> 0 \<longrightarrow>
         Memory wrapper = Some (fst al, if 0x8000 < c then VIRTUAL_ALLOC else HEAP_ALLOC)"
    by (simp add: wr AllocationWrapper_ctor_def)
  have 4: "\<not> operator_bool (process this) \<longrightarrow>
         R = (wrapper, MoveMemory (fst al) (address this) c (snd al))
         \<and> local_bytes (snd R) (fst al) c = local_bytes (snd al) (address this) c"
    by (simp add: R' MoveMemory_bytes)
  have 5: "operator_bool (process this) \<and> remote_memory os h (address this) c = None \<longrightarrow>
         fst R = AllocationWrapper_ctor 0 0 STACK_ALLOC \<and> Memory (fst R) = None
         \<and> os_log (snd R) = os_log (snd al) @ [Call_ReadProcessMemory h (address this) c]"
    by (simp add: R' ReadProcessMemory_def rm AllocationWrapper_ctor_def)
  have 6: "operator_bool (process this) \<and> remote_memory os h (address this) c = Some bs \<longrightarrow>
         fst R = wrapper \<and> local_bytes (snd R) (fst al) (length bs) = bs
         \<and> os_log (snd R) = os_log (snd al) @ [Call_ReadProcessMemory h (address this) c]"
    by (simp add: R' ReadProcessMemory_def rm store_bytes_bytes) (simp add: store_bytes_def)
  from 1 2 3 4 5 6 show ?thesis by blast
qed

theorem ToAllocationWrapper_copies_min_witness:
  "(let os = example_os (\<lambda>a. if a = 4097 then 9 else 0)
               (\<lambda>h a n. if h = 68 then Some (replicate n 7) else None);
        near = fst (MemoryWrapper_ctor 4096 20 GetCurrentProcess no_handles);
        far = fst (MemoryWrapper_ctor 4096 20 68 no_handles);
        gone = fst (MemoryWrapper_ctor 4096 20 72 no_handles);
        large = fst (MemoryWrapper_ctor 4096 50000 GetCurrentProcess no_handles)
    in fst (ToAllocationWrapper 4 near os) = AllocationWrapper_ctor 8192 4 HEAP_ALLOC
       \<and> local_bytes (snd (ToAllocationWrapper 4 near os)) 8192 4 = [0, 9, 0, 0]
       \<and> fst (ToAllocationWrapper 40 far os) = AllocationWrapper_ctor 8192 20 HEAP_ALLOC
       \<and> local_bytes (snd (ToAllocationWrapper 40 far os)) 8192 20 = replicate 20 7
       \<and> Memory (fst (ToAllocationWrapper 40 gone os)) = None
       \<and> Memory (fst (ToAllocationWrapper 40000 large os)) = Some (65536, VIRTUAL_ALLOC))"
proof -
  let ?os = "example_os (\<lambda>a. if a = 4097 then 9 else 0)
               (\<lambda>h a n. if h = 68 then Some (replicate n 7 :: BYTE list) else None)"
  let ?near = "fst (MemoryWrapper_ctor 4096 20 GetCurrentProcess no_handles)"
  let ?far = "fst (MemoryWrapper_ctor 4096 20 68 no_handles)"
  let ?gone = "fst (MemoryWrapper_ctor 4096 20 72 no_handles)"
  let ?large = "fst (MemoryWrapper_ctor 4096 50000 GetCurrentProcess no_handles)"
  have four: "[0..<4] = [0, 1, 2, 3]"
    by (simp add: upt_rec)
  have h: "GetCurrentProcess = INVALID_HANDLE_VALUE" "(68 :: HANDLE) \<noteq> INVALID_HANDLE_VALUE"
    "(72 :: HANDLE) \<noteq> INVALID_HANDLE_VALUE" "INVALID_HANDLE_VALUE \<noteq> (68 :: HANDLE)"
    "INVALID_HANDLE_VALUE \<noteq> (72 :: HANDLE)"
    by (simp_all add: GetCurrentProcess_def INVALID_HANDLE_VALUE_def)
  have ctx: "\<not> operator_bool (process ?near)" "operator_bool (process ?far)"
    "operator_bool (process ?gone)" "\<not> operator_bool (process ?large)"
    by (simp_all add: example_views h)
  have sz: "min 4 (MemorySize ?near) = 4" "min 40 (MemorySize ?far) = 20"
    "min 40 (MemorySize ?gone) = 20" "min 40000 (MemorySize ?large) = 40000"
    by (simp_all add: example_views)
  have al: "fst (HeapAlloc 4 ?os) = 8192" "fst (HeapAlloc 20 ?os) = 8192"
    "fst (VirtualAlloc 40000 ?os) = 65536"
    by (simp_all add: example_os_def HeapAlloc_def VirtualAlloc_def)
  have src: "local_bytes (snd (HeapAlloc 4 ?os)) 4096 4 = [0, 9, 0, 0]"
    by (simp add: example_os_def HeapAlloc_def local_bytes_def zero_fill_def four)
  have rm: "remote_memory ?os 68 4096 20 = Some (replicate 20 7)"
    "remote_memory ?os 72 4096 20 = None"
    by (simp_all add: example_os_def)
  note near = ToAllocationWrapper_copies_min [OF refl refl refl refl refl, of 4 ?near ?os "[]"]
  note far = ToAllocationWrapper_copies_min
      [OF refl refl refl refl refl, of 40 ?far ?os "replicate 20 7"]
  note gone = ToAllocationWrapper_copies_min [OF refl refl refl refl refl, of 40 ?gone ?os "[]"]
  note large = ToAllocationWrapper_copies_min
      [OF refl refl refl refl refl, of 40000 ?large ?os "[]"]
  have 1: "fst (ToAllocationWrapper 4 ?near ?os) = AllocationWrapper_ctor 8192 4 HEAP_ALLOC
       \<and> local_bytes (snd (ToAllocationWrapper 4 ?near ?os)) 8192 4 = [0, 9, 0, 0]"
    using near [THEN conjunct2, THEN conjunct2, THEN conjunct2, THEN conjunct1, rule_format,
        OF ctx(1)]
    by (simp add: sz al src example_views MoveMemory_bytes)
  have 2: "fst (ToAllocationWrapper 40 ?far ?os) = AllocationWrapper_ctor 8192 20 HEAP_ALLOC
       \<and> local_bytes (snd (ToAllocationWrapper 40 ?far ?os)) 8192 20 = replicate 20 7"
    using far [THEN conjunct2, THEN conjunct2, THEN conjunct2, THEN conjunct2, THEN conjunct2,
        rule_format]
    by (simp add: sz al ctx rm example_views h)
  have 3: "Memory (fst (ToAllocationWrapper 40 ?gone ?os)) = None"
    using gone [THEN conjunct2, THEN conjunct2, THEN conjunct2, THEN conjunct2, THEN conjunct1,
        rule_format]
    by (simp add: sz ctx rm example_views h AllocationWrapper_ctor_def)
  have 4: "Memory (fst (ToAllocationWrapper 40000 ?large ?os)) = Some (65536, VIRTUAL_ALLOC)"
    using large [THEN conjunct2, THEN conjunct2, THEN conjunct2, THEN conjunct1, rule_format,
        OF ctx(4)]
      large [THEN conjunct2, THEN conjunct2, THEN conjunct1]
    by (simp add: sz al)
  from 1 2 3 4 show ?thesis
    by (simp add: Let_def)
qed





section \<open>The remote ReadString\<close>

declare ReadString_for.simps [simp del]

lemma ReadString_for_garbage:
  "ReadString_for (\<lambda>n. replicate n 65) 0 20 (replicate 20 65) = (20, replicate 40 65, False)"
  by (simp add: ReadString_for.simps)

text \<open>
  Claim C3, evaluated. First a view of 20 bytes in the process behind handle 68, whose
  memory holds the string abc, its terminator and sixteen blanks, and whose reads
  succeed: the first remote read succeeds, which ends the loop before any byte is looked
  at, and \<open>ReadString\<close> returns the empty string and not abc. Then the same view when
  every remote read fails and fresh buffers hold no zero byte: the scan reaches the
  declared size after the first failed read, and from then on the loop repeats the
  failing read for ever, so \<open>ReadString\<close> returns nothing at all.
\<close>

theorem ReadString_foreign_ignores_bytes_read:
  "(let remote = (\<lambda>h a n. if h = 68 \<and> a = 4096 then Some (take n ([97, 98, 99, 0] @ replicate 16 32)) else None);
        os = example_os (\<lambda>a. 0) remote;
        view = fst (MemoryWrapper_ctor 4096 20 68 no_handles)
    in ReadString view os = Some ([], os\<lparr>os_log := [Call_ReadProcessMemory 68 4096 20]\<rparr>))
   \<and> (let os = example_os (\<lambda>a. 0) (\<lambda>h a n. None);
            view = fst (MemoryWrapper_ctor 4096 20 68 no_handles)
        in ReadString view os = None)"
proof -
  let ?view = "fst (MemoryWrapper_ctor 4096 20 68 no_handles)"
  have f: "address ?view = 4096" "MemorySize ?view = 20" "Get (process ?view) = 68"
    "\<not> operator_not (process ?view)"
    using view_fields [of 4096 20 68 no_handles ?view "snd (MemoryWrapper_ctor 4096 20 68 no_handles)"]
    by (simp_all add: INVALID_HANDLE_VALUE_def)
  let ?remote = "\<lambda>(h :: HANDLE) (a :: nat) (n :: nat). if h = 68 \<and> a = 4096 then Some (take n ([97, 98, 99, 0 :: BYTE] @ replicate 16 32)) else None"
  have 1: "ReadString ?view (example_os (\<lambda>a. 0) ?remote)
      = Some ([], (example_os (\<lambda>a. 0) ?remote)\<lparr>os_log := [Call_ReadProcessMemory 68 4096 20]\<rparr>)"
    by (simp add: ReadString_def f ReadString_while.simps ReadProcessMemory_def example_os_def
        Let_def)
  let ?os = "example_os (\<lambda>a. 0) (\<lambda>h a n. None)"
  let ?os1 = "snd (ReadProcessMemory 68 4096 20 ?os)"
  have fresh: "new_char ?os1 = (\<lambda>n. replicate n 65)" "new_char ?os = (\<lambda>n. replicate n 65)"
    by (simp_all add: ReadProcessMemory_def example_os_def)
  have stuck: "ReadString_while 68 4096 20 20 20 (replicate 40 65) False ?os1 = None"
    by (rule ReadString_while_stuck) (simp add: ReadProcessMemory_def example_os_def)
  have first: "ReadString_while 68 4096 20 0 10 (replicate 20 65) False ?os
      = ReadString_while 68 4096 20 20 20 (replicate 40 65) False ?os1"
  proof -
    have r: "fst (ReadProcessMemory 68 4096 20 ?os) = None"
      by (simp add: ReadProcessMemory_def example_os_def)
    show ?thesis
      by (subst ReadString_while.simps) (simp add: Let_def r fresh ReadString_for_garbage)
  qed
  have 2: "ReadString ?view ?os = None"
    by (simp add: ReadString_def f fresh first stuck)
  from 1 2 show ?thesis by (simp add: Let_def)
qed

end
